theory Spec2Isabelle
  imports Main "HOL-Library.AList"
begin

section \<open>Values shared by the components\<close>

text \<open>
  Time is \<open>Date.now()\<close>: milliseconds since the epoch. Every operation reads the clock
  once; the model passes that reading as \<open>now\<close>. Document ids (\<open>_id\<close>) are natural
  numbers.
\<close>

type_synonym time = nat
type_synonym objectId = nat

datatype provider = google | github | linkedin

text \<open>
  JSON values of a token payload. \<open>JId i\<close> is the string form of the ObjectId \<open>i\<close>;
  \<open>JStr\<close> is any other string; \<open>JNum\<close> a number.
\<close>

datatype jsval = JId objectId | JStr string | JNum nat

type_synonym payload = "(string \<times> jsval) list"

text \<open>
  A credential as it travels in a cookie or a header: \<open>Raw s\<close> is a string that is not
  a well-formed signed token (\<open>Raw []\<close> is the empty string), \<open>Signed p k\<close> is the
  HS256 token with payload \<open>p\<close> signed with the key \<open>k\<close>.
\<close>

datatype token = Raw string | Signed payload string

record js_error =
  e_name :: string
  e_message :: string
  e_code :: "nat option"

definition mkError :: "string \<Rightarrow> js_error" where
  "mkError msg = \<lparr>e_name = ''Error'', e_message = msg, e_code = None\<rparr>"

definition namedError :: "string \<Rightarrow> string \<Rightarrow> js_error" where
  "namedError n msg = \<lparr>e_name = n, e_message = msg, e_code = None\<rparr>"

record api_error =
  statusCode :: nat
  message :: string
  errors :: "(string \<times> string) list"

definition ApiError :: "nat \<Rightarrow> string \<Rightarrow> (string \<times> string) list \<Rightarrow> api_error" where
  "ApiError st msg details = \<lparr>statusCode = st, message = msg, errors = details\<rparr>"

datatype thrown = Plain js_error | Api api_error

record env =
  ACCESS_TOKEN_SECRET :: string
  REFRESH_TOKEN_SECRET :: string
  ACCESS_TOKEN_EXPIRY :: nat
  REFRESH_TOKEN_EXPIRY :: nat
  emailSetter :: "string \<Rightarrow> string"
  nameSetter :: "string \<Rightarrow> string"
  userValidators :: "string \<Rightarrow> string \<Rightarrow> string \<Rightarrow> bool"

text \<open>
  \<open>ACCESS_TOKEN_EXPIRY\<close> and \<open>REFRESH_TOKEN_EXPIRY\<close> are the configured windows in
  seconds (one day and ten days by default). \<open>emailSetter\<close>, \<open>nameSetter\<close> and
  \<open>userValidators\<close> stand for the lowercase/trim setters and the regular-expression
  and length validators of the user schema, which run when a user document is created.
\<close>

section \<open>The token library (jsonwebtoken), as its documentation describes it\<close>

record sign_options =
  expiresIn :: nat
  algorithm :: string
  so_issuer :: string
  so_audience :: string

record verify_options =
  algorithms :: "string list"
  vo_issuer :: string
  vo_audience :: string

definition has_key :: "payload \<Rightarrow> string \<Rightarrow> bool" where
  "has_key p k = (map_of p k \<noteq> None)"

text \<open>
  \<open>jwt.sign\<close>: refuses a payload that already carries a claim an option would set,
  and a registered claim that is not a number; stamps \<open>iat\<close> (the payload's own when
  it is a non-zero number, the clock in seconds otherwise), \<open>exp\<close>, \<open>aud\<close> and \<open>iss\<close>.
  Writing a key that exists keeps its place, a new key goes last, as for a JavaScript
  object.
\<close>

definition jwt_sign :: "time \<Rightarrow> payload \<Rightarrow> string \<Rightarrow> sign_options \<Rightarrow> js_error + token" where
  "jwt_sign now p secret opts =
     (if secret = [] then Inl (mkError ''secretOrPrivateKey must have a value'')
      else if algorithm opts \<noteq> ''HS256'' then Inl (mkError ''algorithm not modelled'')
      else if (case map_of p ''iat'' of None \<Rightarrow> False | Some (JNum n) \<Rightarrow> False | Some v \<Rightarrow> True)
        then Inl (mkError ''iat should be a number of seconds'')
      else if (case map_of p ''nbf'' of None \<Rightarrow> False | Some (JNum n) \<Rightarrow> False | Some v \<Rightarrow> True)
        then Inl (mkError ''nbf should be a number of seconds'')
      else if has_key p ''exp''
        then Inl (mkError ''Bad options.expiresIn option the payload already has an exp property.'')
      else if has_key p ''aud''
        then Inl (mkError ''Bad options.audience option. The payload already has an aud property.'')
      else if has_key p ''iss''
        then Inl (mkError ''Bad options.issuer option. The payload already has an iss property.'')
      else
        let timestamp = (case map_of p ''iat'' of
                           Some (JNum n) \<Rightarrow> if n = 0 then now div 1000 else n
                         | _ \<Rightarrow> now div 1000);
            p1 = AList.update ''iat'' (JNum timestamp) p;
            p2 = AList.update ''exp'' (JNum (timestamp + expiresIn opts)) p1;
            p3 = AList.update ''aud'' (JStr (so_audience opts)) p2;
            p4 = AList.update ''iss'' (JStr (so_issuer opts)) p3
        in Inr (Signed p4 secret))"

text \<open>
  \<open>jwt.verify\<close>: a missing or malformed token and a signature made with another key
  are \<open>JsonWebTokenError\<close>; then \<open>nbf\<close> (\<open>NotBeforeError\<close>), \<open>exp\<close>
  (\<open>TokenExpiredError\<close> once the clock in seconds has reached it), and, when options
  are given, audience and issuer. A signature verifies exactly when the key is the
  signing key.
\<close>

definition jwt_verify :: "time \<Rightarrow> token option \<Rightarrow> string \<Rightarrow> verify_options option \<Rightarrow> js_error + payload" where
  "jwt_verify now tok secret opts =
     (case tok of
        None \<Rightarrow> Inl (namedError ''JsonWebTokenError'' ''jwt must be provided'')
      | Some (Raw s) \<Rightarrow>
          Inl (namedError ''JsonWebTokenError'' (if s = [] then ''jwt must be provided'' else ''jwt malformed''))
      | Some (Signed p k) \<Rightarrow>
          if (case opts of None \<Rightarrow> False | Some vo \<Rightarrow> ''HS256'' \<notin> set (algorithms vo))
            then Inl (namedError ''JsonWebTokenError'' ''invalid algorithm'')
          else if k \<noteq> secret then Inl (namedError ''JsonWebTokenError'' ''invalid signature'')
          else if (case map_of p ''nbf'' of None \<Rightarrow> False | Some (JNum n) \<Rightarrow> False | Some v \<Rightarrow> True)
            then Inl (namedError ''JsonWebTokenError'' ''invalid nbf value'')
          else if (case map_of p ''nbf'' of Some (JNum n) \<Rightarrow> now div 1000 < n | _ \<Rightarrow> False)
            then Inl (namedError ''NotBeforeError'' ''jwt not active'')
          else if (case map_of p ''exp'' of None \<Rightarrow> False | Some (JNum n) \<Rightarrow> False | Some v \<Rightarrow> True)
            then Inl (namedError ''JsonWebTokenError'' ''invalid exp value'')
          else if (case map_of p ''exp'' of Some (JNum n) \<Rightarrow> n \<le> now div 1000 | _ \<Rightarrow> False)
            then Inl (namedError ''TokenExpiredError'' ''jwt expired'')
          else if (case opts of None \<Rightarrow> False
                   | Some vo \<Rightarrow> map_of p ''aud'' \<noteq> Some (JStr (vo_audience vo)))
            then Inl (namedError ''JsonWebTokenError'' ''jwt audience invalid'')
          else if (case opts of None \<Rightarrow> False
                   | Some vo \<Rightarrow> map_of p ''iss'' \<noteq> Some (JStr (vo_issuer vo)))
            then Inl (namedError ''JsonWebTokenError'' ''jwt issuer invalid'')
          else Inr p)"

section \<open>Token Issuer (utils/Token.js)\<close>

definition TOKEN_CONFIG_ALGORITHM :: string where
  "TOKEN_CONFIG_ALGORITHM = ''HS256''"

definition TOKEN_CONFIG_ISSUER :: string where
  "TOKEN_CONFIG_ISSUER = ''InterviewReader''"

definition TOKEN_CONFIG_AUDIENCE :: string where
  "TOKEN_CONFIG_AUDIENCE = ''InterviewReader-Users''"

text \<open>The object spread \<open>{...base, ...extra}\<close>: later keys overwrite earlier ones.\<close>

definition spread :: "payload \<Rightarrow> payload \<Rightarrow> payload" where
  "spread base extra = foldl (\<lambda>acc kv. AList.update (fst kv) (snd kv) acc) base extra"

definition generateAccessToken :: "env \<Rightarrow> time \<Rightarrow> objectId option \<Rightarrow> payload \<Rightarrow> js_error + token" where
  "generateAccessToken e now userId additionalPayload =
     (case userId of
        None \<Rightarrow> Inl (mkError ''User ID is required for token generation'')
      | Some i \<Rightarrow>
          jwt_sign now (spread [(''_id'', JId i), (''type'', JStr ''access'')] additionalPayload)
            (ACCESS_TOKEN_SECRET e)
            \<lparr>expiresIn = ACCESS_TOKEN_EXPIRY e, algorithm = TOKEN_CONFIG_ALGORITHM,
             so_issuer = TOKEN_CONFIG_ISSUER, so_audience = TOKEN_CONFIG_AUDIENCE\<rparr>)"

definition generateRefreshToken :: "env \<Rightarrow> time \<Rightarrow> objectId option \<Rightarrow> payload \<Rightarrow> js_error + token" where
  "generateRefreshToken e now userId additionalPayload =
     (case userId of
        None \<Rightarrow> Inl (mkError ''User ID is required for token generation'')
      | Some i \<Rightarrow>
          jwt_sign now (spread [(''_id'', JId i), (''type'', JStr ''refresh'')] additionalPayload)
            (REFRESH_TOKEN_SECRET e)
            \<lparr>expiresIn = REFRESH_TOKEN_EXPIRY e, algorithm = TOKEN_CONFIG_ALGORITHM,
             so_issuer = TOKEN_CONFIG_ISSUER, so_audience = TOKEN_CONFIG_AUDIENCE\<rparr>)"

definition generateTokens :: "env \<Rightarrow> time \<Rightarrow> objectId option \<Rightarrow> payload \<Rightarrow> js_error + (token \<times> token)" where
  "generateTokens e now userId additionalPayload =
     (case generateAccessToken e now userId additionalPayload of
        Inl err \<Rightarrow> Inl (mkError ''Failed to generate authentication tokens'')
      | Inr accessToken \<Rightarrow>
          (case generateRefreshToken e now userId additionalPayload of
             Inl err \<Rightarrow> Inl (mkError ''Failed to generate authentication tokens'')
           | Inr refreshToken \<Rightarrow> Inr (accessToken, refreshToken)))"

definition verifyAccessToken :: "env \<Rightarrow> time \<Rightarrow> token \<Rightarrow> js_error + payload" where
  "verifyAccessToken e now tok =
     (case (case jwt_verify now (Some tok) (ACCESS_TOKEN_SECRET e)
                   (Some \<lparr>algorithms = [TOKEN_CONFIG_ALGORITHM], vo_issuer = TOKEN_CONFIG_ISSUER,
                          vo_audience = TOKEN_CONFIG_AUDIENCE\<rparr>) of
              Inl err \<Rightarrow> Inl err
            | Inr decoded \<Rightarrow>
                if map_of decoded ''type'' \<noteq> Some (JStr ''access'')
                then Inl (mkError ''Invalid token type'') else Inr decoded) of
        Inl error \<Rightarrow>
          if e_name error = ''TokenExpiredError'' then Inl (mkError ''Access token has expired'')
          else if e_name error = ''JsonWebTokenError'' then Inl (mkError ''Invalid access token'')
          else Inl (mkError (''Token verification failed: '' @ e_message error))
      | Inr decoded \<Rightarrow> Inr decoded)"

definition verifyRefreshToken :: "env \<Rightarrow> time \<Rightarrow> token \<Rightarrow> js_error + payload" where
  "verifyRefreshToken e now tok =
     (case (case jwt_verify now (Some tok) (REFRESH_TOKEN_SECRET e)
                   (Some \<lparr>algorithms = [TOKEN_CONFIG_ALGORITHM], vo_issuer = TOKEN_CONFIG_ISSUER,
                          vo_audience = TOKEN_CONFIG_AUDIENCE\<rparr>) of
              Inl err \<Rightarrow> Inl err
            | Inr decoded \<Rightarrow>
                if map_of decoded ''type'' \<noteq> Some (JStr ''refresh'')
                then Inl (mkError ''Invalid token type'') else Inr decoded) of
        Inl error \<Rightarrow>
          if e_name error = ''TokenExpiredError'' then Inl (mkError ''Refresh token has expired'')
          else if e_name error = ''JsonWebTokenError'' then Inl (mkError ''Invalid refresh token'')
          else Inl (mkError (''Token verification failed: '' @ e_message error))
      | Inr decoded \<Rightarrow> Inr decoded)"

text \<open>
  An \<open>Authorization\<close> header: \<open>Bearer t\<close> is the string \<open>Bearer\<close>, a space and the
  token \<open>t\<close>; \<open>OtherHeader s\<close> is a string \<open>s\<close> that does not start that way.
\<close>

datatype auth_header = Bearer token | OtherHeader string

definition extractTokenFromHeader :: "auth_header option \<Rightarrow> token option" where
  "extractTokenFromHeader authHeader =
     (case authHeader of
        None \<Rightarrow> None
      | Some (OtherHeader s) \<Rightarrow> None
      | Some (Bearer t) \<Rightarrow> Some t)"

section \<open>User model (models/User.model.js)\<close>

text \<open>
  The fields the authentication code reads or writes; skills, company, experience
  and bookmarks are left out.
\<close>

record user =
  uid :: objectId
  email :: string
  name :: string
  avatar :: string
  googleId :: "string option"
  githubId :: "string option"
  linkedinId :: "string option"
  isActive :: bool
  lastLoginAt :: time
  loginCount :: int

text \<open>The field \<open>`${provider}Id`\<close>, read and written.\<close>

fun providerIdField :: "provider \<Rightarrow> user \<Rightarrow> string option" where
  "providerIdField google u = googleId u"
| "providerIdField github u = githubId u"
| "providerIdField linkedin u = linkedinId u"

fun setProviderIdField :: "provider \<Rightarrow> string \<Rightarrow> user \<Rightarrow> user" where
  "setProviderIdField google v u = u\<lparr>googleId := Some v\<rparr>"
| "setProviderIdField github v u = u\<lparr>githubId := Some v\<rparr>"
| "setProviderIdField linkedin v u = u\<lparr>linkedinId := Some v\<rparr>"

text \<open>JavaScript truthiness of an optional string: absent and empty are falsy.\<close>

definition truthy :: "string option \<Rightarrow> bool" where
  "truthy v = (case v of None \<Rightarrow> False | Some s \<Rightarrow> s \<noteq> [])"

section \<open>Session model (models/Session.model.js)\<close>

record session =
  sid :: objectId
  userId :: objectId
  refreshToken :: token
  accessToken :: token
  s_provider :: provider
  userAgent :: string
  ip :: string
  s_isActive :: bool
  lastUsed :: time
  expiresAt :: time
  loggedOutAt :: "time option"

text \<open>
  The datastore: the two collections in their natural order, and the next fresh
  document id. The background expiry of the datastore's own index on \<open>expiresAt\<close>
  is not part of the model.
\<close>

record db =
  users :: "user list"
  sessions :: "session list"
  nextId :: objectId

definition ValidationError :: js_error where
  "ValidationError = \<lparr>e_name = ''ValidationError'', e_message = ''User validation failed'', e_code = None\<rparr>"

definition DuplicateKeyError :: js_error where
  "DuplicateKeyError = \<lparr>e_name = ''MongoServerError'', e_message = ''E11000 duplicate key error'',
                         e_code = Some 11000\<rparr>"

definition CastError :: js_error where
  "CastError = \<lparr>e_name = ''CastError'', e_message = ''Cast to ObjectId failed'', e_code = None\<rparr>"

subsection \<open>Datastore operations on users\<close>

definition User_findById :: "user list \<Rightarrow> objectId \<Rightarrow> user option" where
  "User_findById us i = find (\<lambda>u. uid u = i) us"

text \<open>
  \<open>user.save()\<close>: the schema validators run on the document (the counter has
  \<open>min: 0\<close>), then the stored document with the same \<open>_id\<close> is replaced.
\<close>

definition docValid :: "env \<Rightarrow> user \<Rightarrow> bool" where
  "docValid e u = (userValidators e (email u) (name u) (avatar u) \<and> 0 \<le> loginCount u)"

definition user_save :: "env \<Rightarrow> user list \<Rightarrow> user \<Rightarrow> js_error + user list" where
  "user_save e us u =
     (if \<not> docValid e u then Inl ValidationError
      else Inr (map (\<lambda>x. if uid x = uid u then u else x) us))"

text \<open>Update last login timestamp and increment active session count.\<close>

definition updateLoginInfo :: "env \<Rightarrow> time \<Rightarrow> user list \<Rightarrow> user \<Rightarrow> js_error + user list" where
  "updateLoginInfo e now us this =
     user_save e us (this\<lparr>lastLoginAt := now, loginCount := loginCount this + 1\<rparr>)"

text \<open>Decrease active session count on logout.\<close>

definition decrementLoginCount :: "env \<Rightarrow> user list \<Rightarrow> user \<Rightarrow> js_error + user list" where
  "decrementLoginCount e us this =
     user_save e us (if loginCount this > 0 then this\<lparr>loginCount := loginCount this - 1\<rparr> else this)"

subsection \<open>Static methods of the session model\<close>

definition expiredOrInactive :: "time \<Rightarrow> session \<Rightarrow> bool" where
  "expiredOrInactive now s = (expiresAt s < now \<or> s_isActive s = False)"

text \<open>\<open>cleanExpiredSessions\<close> returns the collection after \<open>deleteMany\<close> and its \<open>deletedCount\<close>.\<close>

definition cleanExpiredSessions :: "time \<Rightarrow> session list \<Rightarrow> session list \<times> nat" where
  "cleanExpiredSessions now ss =
     (filter (\<lambda>s. \<not> expiredOrInactive now s) ss, length (filter (\<lambda>s. expiredOrInactive now s) ss))"

text \<open>
  \<open>getActiveSessions\<close>: the user's active, unexpired sessions, most recently used
  first. The datastore fixes no order among equal \<open>lastUsed\<close>; the model takes the
  reverse of a stable ascending sort.
\<close>

definition getActiveSessions :: "time \<Rightarrow> session list \<Rightarrow> objectId \<Rightarrow> session list" where
  "getActiveSessions now ss u =
     rev (sort_key lastUsed (filter (\<lambda>s. userId s = u \<and> s_isActive s = True \<and> expiresAt s > now) ss))"

text \<open>\<open>Array.prototype.slice(start)\<close>: a negative start counts from the end.\<close>

definition js_slice :: "int \<Rightarrow> 'a list \<Rightarrow> 'a list" where
  "js_slice start xs =
     (if start < 0 then drop (nat (max (int (length xs) + start) 0)) xs else drop (nat start) xs)"

definition deactivateOldSessions :: "time \<Rightarrow> session list \<Rightarrow> objectId \<Rightarrow> nat \<Rightarrow> session list" where
  "deactivateOldSessions now ss u maxSessions =
     (let sessions = getActiveSessions now ss u in
      if length sessions \<ge> maxSessions then
        let sessionsToDeactivate = js_slice (int maxSessions - 1) sessions in
        map (\<lambda>s. if sid s \<in> set (map sid sessionsToDeactivate) then s\<lparr>s_isActive := False\<rparr> else s) ss
      else ss)"

text \<open>
  \<open>Session.create\<close>: the unique index on \<open>refreshToken\<close> refuses a duplicate; the
  new document goes last, under a fresh id.
\<close>

definition Session_create :: "db \<Rightarrow> session \<Rightarrow> js_error + db" where
  "Session_create d sessionData =
     (if \<exists>s \<in> set (sessions d). refreshToken s = refreshToken sessionData then Inl DuplicateKeyError
      else Inr (d\<lparr>sessions := sessions d @ [sessionData\<lparr>sid := nextId d\<rparr>], nextId := nextId d + 1\<rparr>))"

section \<open>Login (Shared/LoginOrCreateUser.js)\<close>

record session_config =
  MAX_SESSIONS_PER_USER :: nat
  ACCESS_TOKEN_EXPIRY_DAYS :: nat
  REFRESH_TOKEN_EXPIRY_DAYS :: nat
  CLEANUP_EXPIRED_ON_LOGIN :: bool

definition SESSION_CONFIG :: session_config where
  "SESSION_CONFIG = \<lparr>MAX_SESSIONS_PER_USER = 3, ACCESS_TOKEN_EXPIRY_DAYS = 1,
                      REFRESH_TOKEN_EXPIRY_DAYS = 10, CLEANUP_EXPIRED_ON_LOGIN = True\<rparr>"

text \<open>Finds existing user by provider ID or email: one query, the first match in store order.\<close>

definition findExistingUser :: "user list \<Rightarrow> provider \<Rightarrow> string \<Rightarrow> string \<Rightarrow> user option" where
  "findExistingUser us p i em = find (\<lambda>u. providerIdField p u = Some i \<or> email u = em) us"

text \<open>
  \<open>User.create\<close>: setters, validators, the unique index on \<open>email\<close>, then the
  document with the schema defaults, stored last under a fresh id.
\<close>

definition createNewUser ::
  "env \<Rightarrow> time \<Rightarrow> db \<Rightarrow> provider \<Rightarrow> string \<Rightarrow> string \<Rightarrow> string \<Rightarrow> string \<Rightarrow> js_error + (db \<times> user)" where
  "createNewUser e now d p i em nm av =
     (let u = setProviderIdField p i
                \<lparr>uid = nextId d, email = emailSetter e em, name = nameSetter e nm, avatar = av,
                 googleId = None, githubId = None, linkedinId = None,
                 isActive = True, lastLoginAt = now, loginCount = 0\<rparr>
      in if \<not> docValid e u then Inl ValidationError
         else if list_ex (\<lambda>x. email x = email u) (users d) then Inl DuplicateKeyError
         else Inr (d\<lparr>users := users d @ [u], nextId := nextId d + 1\<rparr>, u))"

text \<open>Updates existing user with provider ID if not already set.\<close>

definition updateUserProviderData ::
  "env \<Rightarrow> db \<Rightarrow> user \<Rightarrow> provider \<Rightarrow> string \<Rightarrow> js_error + (db \<times> user)" where
  "updateUserProviderData e d u p i =
     (if \<not> truthy (providerIdField p u) then
        (let u' = setProviderIdField p i u in
         case user_save e (users d) u' of
           Inl err \<Rightarrow> Inl err
         | Inr us \<Rightarrow> Inr (d\<lparr>users := us\<rparr>, u'))
      else Inr (d, u))"

definition performSessionCleanup :: "session_config \<Rightarrow> time \<Rightarrow> session list \<Rightarrow> objectId \<Rightarrow> session list" where
  "performSessionCleanup cfg now ss u =
     (let ss1 = (if CLEANUP_EXPIRED_ON_LOGIN cfg then fst (cleanExpiredSessions now ss) else ss)
      in deactivateOldSessions now ss1 u (MAX_SESSIONS_PER_USER cfg))"

text \<open>
  \<open>calculateExpiryDate\<close>: the same wall-clock time \<open>days\<close> days later, which is
  \<open>days\<close> times 86400000 ms where the local clock has no change of offset in between.
\<close>

definition calculateExpiryDate :: "time \<Rightarrow> nat \<Rightarrow> time" where
  "calculateExpiryDate now days = now + days * 86400000"

definition createUserSession ::
  "session_config \<Rightarrow> time \<Rightarrow> db \<Rightarrow> objectId \<Rightarrow> token \<Rightarrow> token \<Rightarrow> provider \<Rightarrow> string \<times> string
     \<Rightarrow> js_error + db" where
  "createUserSession cfg now d u accessTok refreshTok p deviceInfo =
     Session_create d
       \<lparr>sid = 0, userId = u, refreshToken = refreshTok, accessToken = accessTok, s_provider = p,
        userAgent = fst deviceInfo, ip = snd deviceInfo, s_isActive = True, lastUsed = now,
        expiresAt = calculateExpiryDate now (REFRESH_TOKEN_EXPIRY_DAYS cfg), loggedOutAt = None\<rparr>"

text \<open>The request headers the login reads: \<open>user-agent\<close> and the peer address.\<close>

definition extractDeviceInfo :: "string option \<Rightarrow> string option \<Rightarrow> string \<times> string" where
  "extractDeviceInfo ua addr =
     (if truthy ua then the ua else ''Unknown'', if truthy addr then the addr else ''Unknown'')"

datatype login_result =
    SuccessRedirect provider token token
  | ErrorRedirect string provider

text \<open>The \<open>catch\<close> of \<open>loginOrCreateUser\<close>: the redirect for a thrown error.\<close>

definition loginError :: "js_error \<Rightarrow> provider \<Rightarrow> login_result" where
  "loginError err p =
     (if e_code err = Some 11000 then ErrorRedirect ''email_exists'' p
      else if e_name err = ''ValidationError'' then ErrorRedirect ''validation_failed'' p
      else ErrorRedirect ''login_failed'' p)"

text \<open>
  \<open>loginOrCreateUser\<close>: the datastore after the call and the redirect sent (on
  success with the two cookies set). What was written before a step throws stays
  written.
\<close>

definition loginOrCreateUser ::
  "session_config \<Rightarrow> env \<Rightarrow> time \<Rightarrow> db \<Rightarrow> provider \<Rightarrow> string \<Rightarrow> string \<Rightarrow> string \<Rightarrow> string
     \<Rightarrow> string option \<Rightarrow> string option \<Rightarrow> db \<times> login_result" where
  "loginOrCreateUser cfg e now d p i em nm av ua addr =
     (if i = [] \<or> em = [] then (d, ErrorRedirect ''invalid_input'' p)
      else
        case (case findExistingUser (users d) p i em of
                None \<Rightarrow> createNewUser e now d p i em nm av
              | Some u \<Rightarrow> updateUserProviderData e d u p i) of
          Inl err \<Rightarrow> (d, loginError err p)
        | Inr (d1, u1) \<Rightarrow>
            (case updateLoginInfo e now (users d1) u1 of
               Inl err \<Rightarrow> (d1, loginError err p)
             | Inr us2 \<Rightarrow>
                 let d2 = d1\<lparr>users := us2\<rparr>;
                     d3 = d2\<lparr>sessions := performSessionCleanup cfg now (sessions d2) (uid u1)\<rparr>
                 in (case generateTokens e now (Some (uid u1)) [] of
                       Inl err \<Rightarrow> (d3, loginError err p)
                     | Inr (accessTok, refreshTok) \<Rightarrow>
                         (case createUserSession cfg now d3 (uid u1) accessTok refreshTok p
                                 (extractDeviceInfo ua addr) of
                            Inl err \<Rightarrow> (d3, loginError err p)
                          | Inr d4 \<Rightarrow> (d4, SuccessRedirect p accessTok refreshTok)))))"

section \<open>Authentication Gate (middlewares/auth.middlewares.js)\<close>

record request =
  cookie_accessToken :: "token option"
  cookie_refreshToken :: "token option"
  authorization :: "auth_header option"

definition AUTH_CONFIG_SESSION_VALIDATION :: bool where
  "AUTH_CONFIG_SESSION_VALIDATION = True"

definition AUTH_CONFIG_UPDATE_LAST_USED :: bool where
  "AUTH_CONFIG_UPDATE_LAST_USED = True"

text \<open>Truthiness of a token string and of a header string.\<close>

definition truthyToken :: "token option \<Rightarrow> bool" where
  "truthyToken t = (case t of None \<Rightarrow> False | Some (Raw s) \<Rightarrow> s \<noteq> [] | Some (Signed p k) \<Rightarrow> True)"

definition truthyHeader :: "auth_header option \<Rightarrow> bool" where
  "truthyHeader h = (case h of None \<Rightarrow> False | Some (OtherHeader s) \<Rightarrow> s \<noteq> [] | Some (Bearer t) \<Rightarrow> True)"

definition extractAccessToken :: "request \<Rightarrow> token option" where
  "extractAccessToken req =
     (let token1 = cookie_accessToken req;
          token2 = (if \<not> truthyToken token1 \<and> truthyHeader (authorization req)
                    then extractTokenFromHeader (authorization req) else token1)
      in if truthyToken token2 then token2 else None)"

text \<open>
  \<open>validateUserSession\<close>: the first session of the user with this access token that
  is active and unexpired; its \<open>lastUsed\<close> is bumped and saved.
\<close>

definition validateUserSession :: "time \<Rightarrow> session list \<Rightarrow> objectId \<Rightarrow> token \<Rightarrow> session list \<times> bool" where
  "validateUserSession now ss u tok =
     (if \<not> AUTH_CONFIG_SESSION_VALIDATION then (ss, True)
      else
        case find (\<lambda>s. userId s = u \<and> accessToken s = tok \<and> s_isActive s = True \<and> expiresAt s > now) ss of
          None \<Rightarrow> (ss, False)
        | Some s \<Rightarrow>
            if AUTH_CONFIG_UPDATE_LAST_USED
            then (map (\<lambda>x. if sid x = sid s then s\<lparr>lastUsed := now\<rparr> else x) ss, True)
            else (ss, True))"

definition handleAuthError :: "js_error \<Rightarrow> api_error" where
  "handleAuthError error =
     (case map_of
             [(''TokenExpiredError'', ApiError 401 ''Access token has expired'' [(''auth'', ''Token expired'')]),
              (''JsonWebTokenError'', ApiError 401 ''Invalid access token'' [(''auth'', ''Invalid token format'')]),
              (''NotBeforeError'', ApiError 401 ''Token not active yet'' [(''auth'', ''Token not yet valid'')])]
             (e_name error) of
        Some errorInfo \<Rightarrow> errorInfo
      | None \<Rightarrow> ApiError 401 ''Authentication failed'' [(''auth'', e_message error)])"

record tokenInfo =
  ti_accessToken :: token
  ti_userId :: "jsval option"
  ti_tokenType :: "jsval option"
  ti_issuedAt :: "jsval option"
  ti_expiresAt :: "jsval option"

text \<open>
  \<open>verifyJwtToken\<close>: either the error handed to \<open>next\<close>, or the datastore after the
  session's \<open>lastUsed\<close> was bumped together with \<open>req.user\<close> and \<open>req.tokenInfo\<close>.
  A payload \<open>_id\<close> that is no ObjectId makes \<open>findById\<close> throw, an absent one finds
  nothing.
\<close>

definition verifyJwtToken :: "env \<Rightarrow> time \<Rightarrow> db \<Rightarrow> request \<Rightarrow> api_error + (db \<times> user \<times> tokenInfo)" where
  "verifyJwtToken e now d req =
     (case extractAccessToken req of
        None \<Rightarrow> Inl (ApiError 401 ''Access token required''
                       [(''auth'', ''No access token provided in cookies or headers'')])
      | Some accessTok \<Rightarrow>
          (case verifyAccessToken e now accessTok of
             Inl tokenError \<Rightarrow> Inl (handleAuthError tokenError)
           | Inr decodedToken \<Rightarrow>
               (case map_of decodedToken ''_id'' of
                  Some (JStr s) \<Rightarrow>
                    Inl (ApiError 401 ''Authentication failed'' [(''auth'', ''Internal authentication error'')])
                | Some (JNum n) \<Rightarrow>
                    Inl (ApiError 401 ''Authentication failed'' [(''auth'', ''Internal authentication error'')])
                | idv \<Rightarrow>
                    (case (case idv of Some (JId i) \<Rightarrow> User_findById (users d) i | _ \<Rightarrow> None) of
                       None \<Rightarrow> Inl (ApiError 401 ''User not found''
                                      [(''auth'', ''User associated with token does not exist'')])
                     | Some u \<Rightarrow>
                         if \<not> isActive u
                         then Inl (ApiError 401 ''Account is deactivated''
                                     [(''auth'', ''User account has been deactivated'')])
                         else
                           (case validateUserSession now (sessions d) (uid u) accessTok of
                              (ss, sessionValid) \<Rightarrow>
                                if \<not> sessionValid
                                then Inl (ApiError 401 ''Invalid session''
                                            [(''auth'', ''Session has expired or is invalid'')])
                                else Inr (d\<lparr>sessions := ss\<rparr>, u,
                                          \<lparr>ti_accessToken = accessTok,
                                           ti_userId = map_of decodedToken ''_id'',
                                           ti_tokenType = map_of decodedToken ''type'',
                                           ti_issuedAt = map_of decodedToken ''iat'',
                                           ti_expiresAt = map_of decodedToken ''exp''\<rparr>))))))"

section \<open>Error handler and the logout-all-others route\<close>

record error_response =
  er_status :: nat
  er_message :: string
  er_errors :: "(string \<times> string) list"

definition ErrorHandler :: "thrown \<Rightarrow> error_response" where
  "ErrorHandler err =
     (case err of
        Api a \<Rightarrow> \<lparr>er_status = (if statusCode a = 0 then 500 else statusCode a),
                  er_message = (if message a = [] then ''Something went wrong'' else message a),
                  er_errors = errors a\<rparr>
      | Plain j \<Rightarrow> \<lparr>er_status = 500,
                    er_message = (if e_message j = [] then ''Something went wrong'' else e_message j),
                    er_errors = []\<rparr>)"

record invalidate_result =
  invalidatedSessions :: nat
  currentSessionPreserved :: bool

text \<open>
  \<open>SessionService.invalidateAllOtherSessions\<close>: the datastore after the call (the
  bulk update stays written when the later save throws) and the value returned or
  the error thrown.
\<close>

definition invalidateAllOtherSessions ::
  "env \<Rightarrow> time \<Rightarrow> db \<Rightarrow> objectId \<Rightarrow> token option \<Rightarrow> db \<times> (js_error + invalidate_result)" where
  "invalidateAllOtherSessions e now d u currentAccessToken =
     (let matches = (\<lambda>s. userId s = u \<and> s_isActive s = True \<and> Some (accessToken s) \<noteq> currentAccessToken);
          modifiedCount = length (filter matches (sessions d));
          d1 = d\<lparr>sessions := map (\<lambda>s. if matches s then s\<lparr>s_isActive := False, loggedOutAt := Some now\<rparr> else s)
                                 (sessions d)\<rparr>;
          result = \<lparr>invalidatedSessions = modifiedCount, currentSessionPreserved = True\<rparr>
      in if modifiedCount > 0 then
           (case User_findById (users d1) u of
              None \<Rightarrow> (d1, Inr result)
            | Some usr \<Rightarrow>
                (case user_save e (users d1) (usr\<lparr>loginCount := 1\<rparr>) of
                   Inl err \<Rightarrow> (d1, Inl err)
                 | Inr us \<Rightarrow> (d1\<lparr>users := us\<rparr>, Inr result)))
         else (d1, Inr result))"

datatype others_response = OthersOk nat string invalidate_result | OthersFailed error_response

text \<open>The controller \<open>logoutAllOtherDevices\<close>, behind \<open>asyncHandler\<close> and the error handler.\<close>

definition logoutAllOtherDevices ::
  "env \<Rightarrow> time \<Rightarrow> db \<Rightarrow> user \<Rightarrow> tokenInfo option \<Rightarrow> db \<times> others_response" where
  "logoutAllOtherDevices e now d req_user req_tokenInfo =
     (let currentAccessToken = map_option ti_accessToken req_tokenInfo in
      case invalidateAllOtherSessions e now d (uid req_user) currentAccessToken of
        (d1, Inl err) \<Rightarrow> (d1, OthersFailed (ErrorHandler (Plain err)))
      | (d1, Inr result) \<Rightarrow> (d1, OthersOk 200 ''Logged out from all other devices successfully'' result))"

text \<open>\<open>POST /api/v1/user/logout-all-others\<close>: the gate, then the controller.\<close>

definition post_logout_all_others :: "env \<Rightarrow> time \<Rightarrow> db \<Rightarrow> request \<Rightarrow> db \<times> others_response" where
  "post_logout_all_others e now d req =
     (case verifyJwtToken e now d req of
        Inl err \<Rightarrow> (d, OthersFailed (ErrorHandler (Api err)))
      | Inr (d1, u, ti) \<Rightarrow> logoutAllOtherDevices e now d1 u (Some ti))"

section \<open>Logout (Shared/LogoutUser.js)\<close>

text \<open>
  Which datastore calls of a request throw (a lost connection, a timeout). The
  controller catches each of them.
\<close>

record faults =
  findOne_throws :: bool
  deleteOne_throws :: bool
  deleteMany_throws :: bool
  findById_throws :: bool
  save_throws :: bool

definition truthyVal :: "jsval option \<Rightarrow> bool" where
  "truthyVal v = (case v of None \<Rightarrow> False | Some (JId i) \<Rightarrow> True | Some (JStr s) \<Rightarrow> s \<noteq> []
                  | Some (JNum n) \<Rightarrow> n \<noteq> 0)"

definition getUserIdFromToken :: "env \<Rightarrow> time \<Rightarrow> token option \<Rightarrow> jsval option" where
  "getUserIdFromToken e now accessTok =
     (case jwt_verify now accessTok (ACCESS_TOKEN_SECRET e) None of
        Inl err \<Rightarrow> None
      | Inr decoded \<Rightarrow> map_of decoded ''_id'')"

text \<open>\<open>deleteOne\<close>: the first matching document goes; the result is the collection and \<open>deletedCount\<close>.\<close>

fun deleteOne :: "('a \<Rightarrow> bool) \<Rightarrow> 'a list \<Rightarrow> 'a list \<times> nat" where
  "deleteOne P [] = ([], 0)"
| "deleteOne P (x # xs) = (if P x then (xs, 1) else (x # fst (deleteOne P xs), snd (deleteOne P xs)))"

text \<open>Helper function to delete session and update user login count.\<close>

definition deleteSessionAndUpdateCount ::
  "faults \<Rightarrow> env \<Rightarrow> db \<Rightarrow> token \<Rightarrow> jsval option \<Rightarrow> db \<times> nat" where
  "deleteSessionAndUpdateCount f e d refreshTok usrId =
     (if deleteOne_throws f then (d, 0)
      else
        let deleteResult = deleteOne (\<lambda>s. refreshToken s = refreshTok \<and> s_isActive s = True) (sessions d);
            d1 = d\<lparr>sessions := fst deleteResult\<rparr>;
            deletedCount = snd deleteResult
        in if deletedCount > 0 \<and> truthyVal usrId then
             (if findById_throws f then (d1, 0)
              else
                case usrId of
                  Some (JId i) \<Rightarrow>
                    (case User_findById (users d1) i of
                       None \<Rightarrow> (d1, deletedCount)
                     | Some usr \<Rightarrow>
                         if save_throws f then (d1, 0)
                         else (case decrementLoginCount e (users d1) usr of
                                 Inl err \<Rightarrow> (d1, 0)
                               | Inr us \<Rightarrow> (d1\<lparr>users := us\<rparr>, deletedCount)))
                | _ \<Rightarrow> (d1, 0))
           else (d1, deletedCount))"

text \<open>Helper function to cleanup expired sessions (of one user).\<close>

definition cleanupExpiredSessions_user :: "faults \<Rightarrow> time \<Rightarrow> db \<Rightarrow> jsval option \<Rightarrow> db \<times> nat" where
  "cleanupExpiredSessions_user f now d usrId =
     (if deleteMany_throws f then (d, 0)
      else
        case usrId of
          Some (JId i) \<Rightarrow>
            (d\<lparr>sessions := filter (\<lambda>s. \<not> (userId s = i \<and> expiredOrInactive now s)) (sessions d)\<rparr>,
             length (filter (\<lambda>s. userId s = i \<and> expiredOrInactive now s) (sessions d)))
        | _ \<Rightarrow> (d, 0))"

record logout_response =
  lo_status :: nat
  lo_message :: string
  lo_sessionsDeleted :: "nat option"
  lo_cleanupPerformed :: "bool option"
  lo_error :: "string option"

text \<open>
  \<open>logout\<close> (\<open>POST /auth/logout\<close>). Every datastore call sits in a helper with its
  own \<open>try\<close>/\<open>catch\<close>, so the controller's outer \<open>catch\<close> (also a 200) is not reached
  by a datastore failure.
\<close>

definition logout :: "faults \<Rightarrow> env \<Rightarrow> time \<Rightarrow> db \<Rightarrow> request \<Rightarrow> db \<times> logout_response" where
  "logout f e now d req =
     (let refreshTok = cookie_refreshToken req;
          accessTok = cookie_accessToken req;
          usrId = getUserIdFromToken e now accessTok;
          r1 = (if truthyToken refreshTok then deleteSessionAndUpdateCount f e d (the refreshTok) usrId
                else (d, 0));
          d2 = (if truthyVal usrId then fst (cleanupExpiredSessions_user f now (fst r1) usrId) else fst r1)
      in (d2, \<lparr>lo_status = 200, lo_message = ''Logged out successfully'',
               lo_sessionsDeleted = Some (snd r1), lo_cleanupPerformed = Some (truthyVal usrId),
               lo_error = None\<rparr>))"

text \<open>\<open>logoutAllDevices\<close> (\<open>POST /auth/logout-all\<close>, behind the gate).\<close>

definition logoutAllDevices :: "faults \<Rightarrow> env \<Rightarrow> time \<Rightarrow> db \<Rightarrow> request \<Rightarrow> db \<times> logout_response" where
  "logoutAllDevices f e now d req =
     (let refreshTok = cookie_refreshToken req;
          accessTok = cookie_accessToken req;
          usrId1 = (if truthyToken refreshTok \<and> \<not> findOne_throws f
                    then map_option (\<lambda>s. JId (userId s)) (find (\<lambda>s. Some (refreshToken s) = refreshTok) (sessions d))
                    else None);
          usrId = (if \<not> truthyVal usrId1 \<and> truthyToken accessTok then getUserIdFromToken e now accessTok
                   else usrId1);
          r = (if truthyVal usrId then
                 (case usrId of
                    Some (JId i) \<Rightarrow>
                      if deleteMany_throws f then (d, 0)
                      else
                        let deletedCount = length (filter (\<lambda>s. userId s = i) (sessions d));
                            d1 = d\<lparr>sessions := filter (\<lambda>s. userId s \<noteq> i) (sessions d)\<rparr>
                        in if deletedCount > 0 \<and> \<not> findById_throws f then
                             (case User_findById (users d1) i of
                                None \<Rightarrow> (d1, deletedCount)
                              | Some usr \<Rightarrow>
                                  if save_throws f then (d1, deletedCount)
                                  else (case user_save e (users d1) (usr\<lparr>loginCount := 0\<rparr>) of
                                          Inl err \<Rightarrow> (d1, deletedCount)
                                        | Inr us \<Rightarrow> (d1\<lparr>users := us\<rparr>, deletedCount)))
                           else (d1, deletedCount)
                  | _ \<Rightarrow> (d, 0))
               else (d, 0))
      in (fst r, \<lparr>lo_status = 200, lo_message = ''Logged out from all devices'',
                  lo_sessionsDeleted = Some (snd r), lo_cleanupPerformed = None, lo_error = None\<rparr>))"

section \<open>Periodic cleanup (utils/sessionCleanup.js)\<close>

definition MAX_RETRY_ATTEMPTS :: nat where
  "MAX_RETRY_ATTEMPTS = 3"

text \<open>
  \<open>cleanupExpiredSessions\<close>: \<open>throws k\<close> says whether the datastore call of attempt
  \<open>k\<close> throws; a retry runs after the backoff delay. The result is the collection
  and the number of sessions deleted.
\<close>

function cleanupExpiredSessions :: "(nat \<Rightarrow> bool) \<Rightarrow> time \<Rightarrow> session list \<Rightarrow> nat \<Rightarrow> session list \<times> nat" where
  "cleanupExpiredSessions throws now ss retryCount =
     (if \<not> throws retryCount then cleanExpiredSessions now ss
      else if retryCount < MAX_RETRY_ATTEMPTS
        then cleanupExpiredSessions throws (now + 2 ^ retryCount * 1000) ss (retryCount + 1)
      else (ss, 0))"
  by pat_completeness auto
termination
  by (relation "measure (\<lambda>(throws, now, ss, retryCount). MAX_RETRY_ATTEMPTS - retryCount)") auto

section \<open>Properties stated over the model\<close>

text \<open>The active-session counter of every stored user is not negative.\<close>

definition loginCounts_nonneg :: "user list \<Rightarrow> bool" where
  "loginCounts_nonneg us = list_all (\<lambda>u. 0 \<le> loginCount u) us"


text \<open>A login ended with the redirect to the dashboard.\<close>

definition is_success :: "login_result \<Rightarrow> bool" where
  "is_success r = (case r of SuccessRedirect p a t \<Rightarrow> True | ErrorRedirect c p \<Rightarrow> False)"




text \<open>
  A run of logins with one identity at the given times: the datastore after the last
  and the redirect of each.
\<close>

fun run_logins ::
  "session_config \<Rightarrow> env \<Rightarrow> db \<Rightarrow> provider \<Rightarrow> string \<Rightarrow> string \<Rightarrow> string \<Rightarrow> string
     \<Rightarrow> string option \<Rightarrow> string option \<Rightarrow> time list \<Rightarrow> db \<times> login_result list" where
  "run_logins cfg e d p i em nm av ua addr [] = (d, [])"
| "run_logins cfg e d p i em nm av ua addr (t # ts) =
     (case loginOrCreateUser cfg e t d p i em nm av ua addr of
        (d1, r) \<Rightarrow> (case run_logins cfg e d1 p i em nm av ua addr ts of (d2, rs) \<Rightarrow> (d2, r # rs)))"

section \<open>Example values\<close>

definition example_env :: env where
  "example_env = \<lparr>ACCESS_TOKEN_SECRET = ''access-secret-0123456789-0123456789'',
                   REFRESH_TOKEN_SECRET = ''refresh-secret-0123456789-0123456789'',
                   ACCESS_TOKEN_EXPIRY = 86400, REFRESH_TOKEN_EXPIRY = 864000,
                   emailSetter = (\<lambda>s. s), nameSetter = (\<lambda>s. s),
                   userValidators = (\<lambda>em nm av. True)\<rparr>"

text \<open>A deployment that uses one signing secret for both kinds of token.\<close>

definition shared_secret_env :: env where
  "shared_secret_env = example_env\<lparr>REFRESH_TOKEN_SECRET := ACCESS_TOKEN_SECRET example_env\<rparr>"

definition example_user :: user where
  "example_user = \<lparr>uid = 1, email = ''a@x.com'', name = ''Alice'', avatar = [],
                    googleId = Some ''g1'', githubId = None, linkedinId = None,
                    isActive = True, lastLoginAt = 0, loginCount = 1\<rparr>"

definition example_session :: session where
  "example_session = \<lparr>sid = 2, userId = 1, refreshToken = Raw ''r1'', accessToken = Raw ''a1'',
                       s_provider = google, userAgent = ''Unknown'', ip = ''Unknown'',
                       s_isActive = True, lastUsed = 0, expiresAt = 864000000, loggedOutAt = None\<rparr>"

definition example_db :: db where
  "example_db = \<lparr>users = [example_user], sessions = [example_session], nextId = 3\<rparr>"

definition empty_db :: db where
  "empty_db = \<lparr>users = [], sessions = [], nextId = 1\<rparr>"

text \<open>The datastore after one, two and three logins of one user, starting empty.\<close>

definition one_login_db :: db where
  "one_login_db = fst (run_logins SESSION_CONFIG example_env empty_db google ''g1'' ''a@x.com'' ''Alice'' []
                         None None [0])"

definition two_logins_db :: db where
  "two_logins_db = fst (run_logins SESSION_CONFIG example_env empty_db google ''g1'' ''a@x.com'' ''Alice'' []
                          None None [0, 950400000])"

definition three_logins_db :: db where
  "three_logins_db = fst (run_logins SESSION_CONFIG example_env empty_db google ''g1'' ''a@x.com'' ''Alice'' []
                            None None [0, 1000, 2000])"

definition no_faults :: faults where
  "no_faults = \<lparr>findOne_throws = False, deleteOne_throws = False, deleteMany_throws = False,
                 findById_throws = False, save_throws = False\<rparr>"

definition all_faults :: faults where
  "all_faults = \<lparr>findOne_throws = True, deleteOne_throws = True, deleteMany_throws = True,
                  findById_throws = True, save_throws = True\<rparr>"

definition example_access_token :: token where
  "example_access_token =
     Signed [(''_id'', JId 1), (''type'', JStr ''access''), (''iat'', JNum 0), (''exp'', JNum 86400),
             (''aud'', JStr ''InterviewReader-Users''), (''iss'', JStr ''InterviewReader'')]
            ''access-secret-0123456789-0123456789''"

section \<open>Token Issuer and Authentication Gate\<close>

lemma map_of_spread_other:
  "k \<notin> fst ` set extra \<Longrightarrow> map_of (spread base extra) k = map_of base k"
  unfolding spread_def
  by (induction extra arbitrary: base) (auto simp: update_conv')

lemma jwt_sign_signed:
  "jwt_sign now p secret opts = Inr tok \<Longrightarrow>
   \<exists>q. tok = Signed q secret \<and> map_of q ''type'' = map_of p ''type''
     \<and> map_of q ''_id'' = map_of p ''_id''
     \<and> map_of q ''exp'' = Some (JNum ((case map_of p ''iat'' of
                           Some (JNum n) \<Rightarrow> if n = 0 then now div 1000 else n
                         | _ \<Rightarrow> now div 1000) + expiresIn opts))"
  by (auto simp: jwt_sign_def Let_def update_conv' split: if_splits)

lemma jwt_verify_Inr:
  "jwt_verify now (Some (Signed q k)) secret opts = Inr x \<Longrightarrow> x = q \<and> k = secret"
  by (auto simp: jwt_verify_def split: if_splits)

lemma example_access_token_issued:
  "generateAccessToken example_env 0 (Some 1) [] = Inr example_access_token"
  by (simp add: generateAccessToken_def example_env_def example_access_token_def spread_def
      jwt_sign_def has_key_def
      TOKEN_CONFIG_ALGORITHM_def TOKEN_CONFIG_ISSUER_def TOKEN_CONFIG_AUDIENCE_def)

lemma access_token_expired_error:
  assumes "generateAccessToken e t0 (Some i) [] = Inr tok"
    and "t0 div 1000 + ACCESS_TOKEN_EXPIRY e \<le> now div 1000"
  shows "verifyAccessToken e now tok = Inl (mkError ''Access token has expired'')"
proof -
  from assms(1) obtain q where q: "tok = Signed q (ACCESS_TOKEN_SECRET e)"
    "map_of q ''exp'' = Some (JNum (t0 div 1000 + ACCESS_TOKEN_EXPIRY e))"
    "map_of q ''nbf'' = None"
    by (auto simp: generateAccessToken_def spread_def jwt_sign_def Let_def has_key_def
        split: if_splits)
  show ?thesis
    using q assms(2)
    by (simp add: verifyAccessToken_def jwt_verify_def TOKEN_CONFIG_ALGORITHM_def namedError_def)
qed

text \<open>
  C3. An access token issued by \<open>generateAccessToken\<close> and presented at the gate once
  its expiry window has elapsed is rejected, but with the fallback error of
  \<open>handleAuthError\<close> (message \<open>Authentication failed\<close>, the text of the cause only in
  the details), not with the entry the error map holds for \<open>TokenExpiredError\<close>:
  \<open>verifyAccessToken\<close> has replaced the library's error by a plain \<open>Error\<close>, whose name
  the map does not know.
\<close>

theorem expired_token_gets_generic_failure:
  assumes "generateAccessToken e t0 (Some i) [] = Inr tok"
    and "cookie_accessToken req = Some tok"
    and "t0 div 1000 + ACCESS_TOKEN_EXPIRY e \<le> now div 1000"
  shows "verifyJwtToken e now d req
           = Inl (ApiError 401 ''Authentication failed'' [(''auth'', ''Access token has expired'')])
         \<and> verifyJwtToken e now d req
           \<noteq> Inl (handleAuthError (namedError ''TokenExpiredError'' ''jwt expired''))
         \<and> handleAuthError (namedError ''TokenExpiredError'' ''jwt expired'')
           = ApiError 401 ''Access token has expired'' [(''auth'', ''Token expired'')]"
proof -
  have tok: "\<exists>q k. tok = Signed q k"
    using assms(1) by (auto simp: generateAccessToken_def jwt_sign_def Let_def split: if_splits)
  then have ex: "extractAccessToken req = Some tok"
    using assms(2) by (auto simp: extractAccessToken_def truthyToken_def Let_def)
  have v: "verifyAccessToken e now tok = Inl (mkError ''Access token has expired'')"
    using assms(1,3) by (rule access_token_expired_error)
  have g: "verifyJwtToken e now d req
      = Inl (ApiError 401 ''Authentication failed'' [(''auth'', ''Access token has expired'')])"
    by (simp add: verifyJwtToken_def ex v handleAuthError_def mkError_def)
  show ?thesis
    unfolding g by (simp add: handleAuthError_def namedError_def ApiError_def)
qed

theorem expired_token_gets_generic_failure_example:
  "generateAccessToken example_env 0 (Some 1) [] = Inr example_access_token
   \<and> verifyJwtToken example_env 86400000 example_db
        \<lparr>cookie_accessToken = Some example_access_token, cookie_refreshToken = None,
         authorization = None\<rparr>
      = Inl (ApiError 401 ''Authentication failed'' [(''auth'', ''Access token has expired'')])"
proof -
  have c: "(0::nat) div 1000 + ACCESS_TOKEN_EXPIRY example_env \<le> 86400000 div 1000"
    by (simp add: example_env_def)
  show ?thesis
    using example_access_token_issued
      expired_token_gets_generic_failure [OF example_access_token_issued _ c,
        of "\<lparr>cookie_accessToken = Some example_access_token, cookie_refreshToken = None,
             authorization = None\<rparr>" example_db]
    by simp
qed

text \<open>
  C5. With one signing secret for both kinds and an additional payload that carries
  its own \<open>type\<close>, the token \<open>generateAccessToken\<close> issues is accepted by
  \<open>verifyRefreshToken\<close>: the spread of the additional payload comes after the fixed
  \<open>type\<close> and overwrites it.
\<close>

theorem access_token_accepted_as_refresh:
  "generateAccessToken shared_secret_env 0 (Some 1) [(''type'', JStr ''refresh'')]
     = Inr (Signed [(''_id'', JId 1), (''type'', JStr ''refresh''), (''iat'', JNum 0),
                    (''exp'', JNum 86400), (''aud'', JStr ''InterviewReader-Users''),
                    (''iss'', JStr ''InterviewReader'')] ''access-secret-0123456789-0123456789'')
   \<and> verifyRefreshToken shared_secret_env 1000
        (Signed [(''_id'', JId 1), (''type'', JStr ''refresh''), (''iat'', JNum 0),
                 (''exp'', JNum 86400), (''aud'', JStr ''InterviewReader-Users''),
                 (''iss'', JStr ''InterviewReader'')] ''access-secret-0123456789-0123456789'')
     = Inr [(''_id'', JId 1), (''type'', JStr ''refresh''), (''iat'', JNum 0),
            (''exp'', JNum 86400), (''aud'', JStr ''InterviewReader-Users''),
            (''iss'', JStr ''InterviewReader'')]"
  by (simp add: generateAccessToken_def verifyRefreshToken_def shared_secret_env_def example_env_def
      spread_def jwt_sign_def jwt_verify_def has_key_def
      TOKEN_CONFIG_ALGORITHM_def TOKEN_CONFIG_ISSUER_def TOKEN_CONFIG_AUDIENCE_def)

text \<open>
  Across kinds a token is rejected whenever the two secrets differ, and whenever the
  additional payload has no \<open>type\<close> of its own.
\<close>

lemma cross_kind_rejected_distinct_secrets:
  assumes "ACCESS_TOKEN_SECRET e \<noteq> REFRESH_TOKEN_SECRET e"
  shows "generateAccessToken e t (Some i) pl = Inr tok
           \<Longrightarrow> verifyRefreshToken e now tok = Inl (mkError ''Invalid refresh token'')"
    and "generateRefreshToken e t (Some i) pl = Inr tok
           \<Longrightarrow> verifyAccessToken e now tok = Inl (mkError ''Invalid access token'')"
  using assms
  by (auto simp: generateAccessToken_def generateRefreshToken_def verifyRefreshToken_def
      verifyAccessToken_def jwt_verify_def namedError_def TOKEN_CONFIG_ALGORITHM_def
      dest!: jwt_sign_signed)

lemma cross_kind_rejected_without_type_key:
  assumes "''type'' \<notin> fst ` set pl"
  shows "generateAccessToken e t (Some i) pl = Inr tok \<Longrightarrow> isl (verifyRefreshToken e now tok)"
    and "generateRefreshToken e t (Some i) pl = Inr tok \<Longrightarrow> isl (verifyAccessToken e now tok)"
  using assms
  by (auto simp: generateAccessToken_def generateRefreshToken_def verifyRefreshToken_def
      verifyAccessToken_def map_of_spread_other
      dest!: jwt_sign_signed jwt_verify_Inr split: sum.splits)

section \<open>Periodic cleanup\<close>

text \<open>
  C7. The periodic cleanup, when the datastore call of its first attempt does not
  throw, deletes exactly the sessions with \<open>expiresAt < now\<close> or \<open>isActive = false\<close>:
  the collection afterwards is the rest, in order, the count returned is the number
  deleted, and a session is still stored exactly when it was stored, is active and
  has not expired.
\<close>

theorem periodicCleanup_deletes_exactly:
  assumes "\<not> throws 0"
  shows "fst (cleanupExpiredSessions throws now ss 0)
           = filter (\<lambda>s. \<not> (expiresAt s < now \<or> s_isActive s = False)) ss
       \<and> snd (cleanupExpiredSessions throws now ss 0)
           = length (filter (\<lambda>s. expiresAt s < now \<or> s_isActive s = False) ss)
       \<and> (s \<in> set (fst (cleanupExpiredSessions throws now ss 0))
            \<longleftrightarrow> s \<in> set ss \<and> \<not> (expiresAt s < now \<or> s_isActive s = False))"
  using assms
  by (auto simp: cleanExpiredSessions_def expiredOrInactive_def)

theorem periodicCleanup_deletes_exactly_example:
  "\<not> (\<lambda>k. False) (0::nat)
   \<and> fst (cleanupExpiredSessions (\<lambda>k. False) 1000
            [example_session\<lparr>expiresAt := 500\<rparr>, example_session,
             example_session\<lparr>s_isActive := False\<rparr>] 0)
       = [example_session]
   \<and> snd (cleanupExpiredSessions (\<lambda>k. False) 1000
            [example_session\<lparr>expiresAt := 500\<rparr>, example_session,
             example_session\<lparr>s_isActive := False\<rparr>] 0) = 2"
  using periodicCleanup_deletes_exactly [of "\<lambda>k. False" 1000
      "[example_session\<lparr>expiresAt := 500\<rparr>, example_session, example_session\<lparr>s_isActive := False\<rparr>]"
      example_session]
  by (simp add: example_session_def)

text \<open>After failed attempts the cleanup runs at the time of the first attempt that does not throw.\<close>

lemma cleanupExpiredSessions_retry:
  "throws 0 \<Longrightarrow> \<not> throws 1 \<Longrightarrow>
   cleanupExpiredSessions throws now ss 0 = cleanExpiredSessions (now + 1000) ss"
  by (simp add: MAX_RETRY_ATTEMPTS_def)

lemma cleanupExpiredSessions_gives_up:
  "throws 0 \<Longrightarrow> throws 1 \<Longrightarrow> throws 2 \<Longrightarrow> throws 3 \<Longrightarrow> cleanupExpiredSessions throws now ss 0 = (ss, 0)"
  by (simp add: MAX_RETRY_ATTEMPTS_def numeral_2_eq_2 numeral_3_eq_3)

section \<open>Logout\<close>

lemma cleanupExpiredSessions_user_users:
  "users (fst (cleanupExpiredSessions_user f now d usrId)) = users d"
  by (auto simp: cleanupExpiredSessions_user_def split: option.splits jsval.splits)

text \<open>
  C8. A logout request without a refresh-token cookie is answered with status 200
  and zero sessions deleted, whatever the access-token cookie holds and whichever
  datastore calls fail; no user record changes.
\<close>

theorem logout_without_refresh_cookie:
  assumes "cookie_refreshToken req = None"
  shows "lo_status (snd (logout f e now d req)) = 200
       \<and> lo_sessionsDeleted (snd (logout f e now d req)) = Some 0
       \<and> lo_error (snd (logout f e now d req)) = None
       \<and> users (fst (logout f e now d req)) = users d"
  using assms
  by (simp add: logout_def Let_def truthyToken_def cleanupExpiredSessions_user_users)

theorem logout_without_refresh_cookie_example:
  "cookie_refreshToken \<lparr>cookie_accessToken = Some example_access_token, cookie_refreshToken = None,
                         authorization = None\<rparr> = None
   \<and> lo_status (snd (logout all_faults example_env 1000 example_db
        \<lparr>cookie_accessToken = Some example_access_token, cookie_refreshToken = None,
         authorization = None\<rparr>)) = 200
   \<and> lo_sessionsDeleted (snd (logout all_faults example_env 1000 example_db
        \<lparr>cookie_accessToken = Some example_access_token, cookie_refreshToken = None,
         authorization = None\<rparr>)) = Some 0"
  using logout_without_refresh_cookie [of
      "\<lparr>cookie_accessToken = Some example_access_token, cookie_refreshToken = None,
        authorization = None\<rparr>" all_faults example_env 1000 example_db]
  by simp

text \<open>The status is 200 for every logout request.\<close>

lemma logout_always_200: "lo_status (snd (logout f e now d req)) = 200"
  by (simp add: logout_def Let_def)

section \<open>Login: identity resolution and the counter\<close>

lemma user_save_nonneg:
  "loginCounts_nonneg us \<Longrightarrow> user_save e us u = Inr us' \<Longrightarrow> loginCounts_nonneg us'"
  by (auto simp: user_save_def loginCounts_nonneg_def docValid_def list_all_iff split: if_splits)

lemma updateLoginInfo_nonneg:
  "loginCounts_nonneg us \<Longrightarrow> updateLoginInfo e now us u = Inr us' \<Longrightarrow> loginCounts_nonneg us'"
  unfolding updateLoginInfo_def by (rule user_save_nonneg)

lemma decrementLoginCount_nonneg:
  "loginCounts_nonneg us \<Longrightarrow> decrementLoginCount e us u = Inr us' \<Longrightarrow> loginCounts_nonneg us'"
  unfolding decrementLoginCount_def by (rule user_save_nonneg)

lemma createNewUser_nonneg:
  "loginCounts_nonneg (users d) \<Longrightarrow> createNewUser e now d p i em nm av = Inr (d', u)
   \<Longrightarrow> loginCounts_nonneg (users d')"
  by (cases p) (auto simp: createNewUser_def loginCounts_nonneg_def Let_def split: if_splits)

lemma updateUserProviderData_nonneg:
  "loginCounts_nonneg (users d) \<Longrightarrow> updateUserProviderData e d u p i = Inr (d', u')
   \<Longrightarrow> loginCounts_nonneg (users d')"
  by (auto simp: updateUserProviderData_def Let_def split: if_splits sum.splits dest: user_save_nonneg)

lemma createUserSession_users:
  "createUserSession cfg now d u a r p dv = Inr d' \<Longrightarrow> users d' = users d"
  by (auto simp: createUserSession_def Session_create_def split: if_splits)

lemma loginOrCreateUser_users:
  assumes "i \<noteq> []" "em \<noteq> []"
    and "(case findExistingUser (users d) p i em of
            None \<Rightarrow> createNewUser e now d p i em nm av
          | Some u \<Rightarrow> updateUserProviderData e d u p i) = Inr (d1, u1)"
    and "updateLoginInfo e now (users d1) u1 = Inr us2"
  shows "users (fst (loginOrCreateUser cfg e now d p i em nm av ua addr)) = us2"
  using assms
  by (auto simp: loginOrCreateUser_def Let_def split: sum.splits prod.splits
      dest!: createUserSession_users)

lemma loginOrCreateUser_users_failed:
  assumes "i \<noteq> []" "em \<noteq> []"
    and "(case findExistingUser (users d) p i em of
            None \<Rightarrow> createNewUser e now d p i em nm av
          | Some u \<Rightarrow> updateUserProviderData e d u p i) = Inr (d1, u1)"
    and "updateLoginInfo e now (users d1) u1 = Inl err"
  shows "users (fst (loginOrCreateUser cfg e now d p i em nm av ua addr)) = users d1"
  using assms
  by (auto simp: loginOrCreateUser_def Let_def split: sum.splits prod.splits)

lemma find_Some_mem: "find P xs = Some x \<Longrightarrow> x \<in> set xs \<and> P x"
  by (induction xs) (auto split: if_splits)

lemma User_findById_replace:
  "u \<in> set us \<Longrightarrow> uid u' = uid u \<Longrightarrow>
   User_findById (map (\<lambda>x. if uid x = uid u then u' else x) us) (uid u) = Some u'"
  unfolding User_findById_def
  by (induction us) auto


lemma docValid_setProviderIdField [simp]:
  "docValid e (setProviderIdField p i u) = docValid e u"
  by (cases p) (simp_all add: docValid_def)

lemma providerIdField_setProviderIdField [simp]:
  "providerIdField p (setProviderIdField p i u) = Some i"
  by (cases p) simp_all

lemma uid_setProviderIdField [simp]: "uid (setProviderIdField p i u) = uid u"
  by (cases p) simp_all

lemma loginCount_setProviderIdField [simp]: "loginCount (setProviderIdField p i u) = loginCount u"
  by (cases p) simp_all

lemma providerIdField_login_info [simp]:
  "providerIdField p (u\<lparr>lastLoginAt := t, loginCount := c\<rparr>) = providerIdField p u"
  by (cases p) simp_all





lemma loginOrCreateUser_nonneg:
  assumes "loginCounts_nonneg (users d)"
  shows "loginCounts_nonneg (users (fst (loginOrCreateUser cfg e now d p i em nm av ua addr)))"
proof (cases "i = [] \<or> em = []")
  case True
  then show ?thesis using assms by (auto simp: loginOrCreateUser_def)
next
  case False
  let ?step1 = "case findExistingUser (users d) p i em of
                  None \<Rightarrow> createNewUser e now d p i em nm av
                | Some u \<Rightarrow> updateUserProviderData e d u p i"
  show ?thesis
  proof (cases ?step1)
    case (Inl err)
    then show ?thesis using False assms by (simp add: loginOrCreateUser_def)
  next
    case (Inr r)
    obtain d1 u1 where r: "r = (d1, u1)" by (cases r)
    have n1: "loginCounts_nonneg (users d1)"
      using Inr r assms
      by (auto split: option.splits dest: createNewUser_nonneg updateUserProviderData_nonneg)
    show ?thesis
    proof (cases "updateLoginInfo e now (users d1) u1")
      case (Inl err)
      then show ?thesis using False Inr r n1 by (simp add: loginOrCreateUser_def)
    next
      case (Inr us2)
      have "loginCounts_nonneg us2" using n1 Inr by (rule updateLoginInfo_nonneg)
      moreover have "users (fst (loginOrCreateUser cfg e now d p i em nm av ua addr)) = us2"
        using False \<open>?step1 = Inr r\<close> r Inr by (intro loginOrCreateUser_users) auto
      ultimately show ?thesis by simp
    qed
  qed
qed

lemma deleteSessionAndUpdateCount_nonneg:
  "loginCounts_nonneg (users d) \<Longrightarrow>
   loginCounts_nonneg (users (fst (deleteSessionAndUpdateCount f e d rt usrId)))"
  by (auto simp: deleteSessionAndUpdateCount_def Let_def split: option.splits sum.splits jsval.splits
      dest: decrementLoginCount_nonneg)

lemma logout_nonneg:
  "loginCounts_nonneg (users d) \<Longrightarrow> loginCounts_nonneg (users (fst (logout f e now d req)))"
  by (simp add: logout_def Let_def cleanupExpiredSessions_user_users deleteSessionAndUpdateCount_nonneg)

lemma logoutAllDevices_nonneg:
  "loginCounts_nonneg (users d) \<Longrightarrow> loginCounts_nonneg (users (fst (logoutAllDevices f e now d req)))"
  by (auto simp: logoutAllDevices_def Let_def split: option.splits sum.splits jsval.splits
      dest: user_save_nonneg)

lemma invalidateAllOtherSessions_nonneg:
  "loginCounts_nonneg (users d) \<Longrightarrow>
   loginCounts_nonneg (users (fst (invalidateAllOtherSessions e now d u cur)))"
  by (auto simp: invalidateAllOtherSessions_def Let_def split: option.splits sum.splits
      dest: user_save_nonneg)

text \<open>
  C9. If no stored user has a negative active-session counter, none has one after a
  login (counter incremented), a logout (decremented, not below zero), a
  logout-others (set to 1) or a logout-all (set to 0), whatever the request and
  whichever datastore calls of the logout fail.
\<close>

theorem loginCount_never_negative:
  assumes "loginCounts_nonneg (users d)"
  shows "loginCounts_nonneg (users (fst (loginOrCreateUser cfg e now d p i em nm av ua addr)))
       \<and> loginCounts_nonneg (users (fst (logout f e now d req)))
       \<and> loginCounts_nonneg (users (fst (invalidateAllOtherSessions e now d u cur)))
       \<and> loginCounts_nonneg (users (fst (logoutAllDevices f e now d req)))"
  using assms
  by (simp add: loginOrCreateUser_nonneg logout_nonneg invalidateAllOtherSessions_nonneg
      logoutAllDevices_nonneg)

theorem loginCount_never_negative_example:
  "loginCounts_nonneg (users example_db)
   \<and> loginCounts_nonneg (users (fst (loginOrCreateUser SESSION_CONFIG example_env 5000 example_db
                                       google ''g1'' ''a@x.com'' ''Alice'' [] None None)))
   \<and> loginCounts_nonneg (users (fst (logout no_faults example_env 5000 example_db
        \<lparr>cookie_accessToken = Some example_access_token, cookie_refreshToken = Some (Raw ''r1''),
         authorization = None\<rparr>)))
   \<and> loginCounts_nonneg (users (fst (invalidateAllOtherSessions example_env 5000 example_db 1
                                       (Some example_access_token))))
   \<and> loginCounts_nonneg (users (fst (logoutAllDevices no_faults example_env 5000 example_db
        \<lparr>cookie_accessToken = Some example_access_token, cookie_refreshToken = Some (Raw ''r1''),
         authorization = None\<rparr>)))"
proof -
  have h: "loginCounts_nonneg (users example_db)"
    by (simp add: loginCounts_nonneg_def example_db_def example_user_def)
  show ?thesis
    using h loginCount_never_negative [OF h, of SESSION_CONFIG example_env 5000 google "''g1''" "''a@x.com''"
        "''Alice''" "[]" None None no_faults
        "\<lparr>cookie_accessToken = Some example_access_token, cookie_refreshToken = Some (Raw ''r1''),
          authorization = None\<rparr>" 1 "Some example_access_token"]
    by simp
qed

section \<open>Session cap\<close>






lemma loginError_not_success [simp]: "\<not> is_success (loginError err p)"
  by (simp add: is_success_def loginError_def)

lemma email_setProviderIdField [simp]: "email (setProviderIdField p i u) = email u"
  by (cases p) simp_all





















lemmas login_eval =
  loginOrCreateUser_def findExistingUser_def createNewUser_def updateUserProviderData_def
  updateLoginInfo_def user_save_def docValid_def performSessionCleanup_def cleanExpiredSessions_def
  expiredOrInactive_def deactivateOldSessions_def getActiveSessions_def js_slice_def
  generateTokens_def generateAccessToken_def generateRefreshToken_def jwt_sign_def spread_def
  has_key_def createUserSession_def Session_create_def calculateExpiryDate_def extractDeviceInfo_def
  truthy_def SESSION_CONFIG_def example_env_def empty_db_def is_success_def
  TOKEN_CONFIG_ALGORITHM_def TOKEN_CONFIG_ISSUER_def TOKEN_CONFIG_AUDIENCE_def Let_def



section \<open>Logout from all other devices\<close>

lemmas gate_eval =
  verifyJwtToken_def extractAccessToken_def truthyToken_def truthyHeader_def extractTokenFromHeader_def
  verifyAccessToken_def jwt_verify_def namedError_def mkError_def handleAuthError_def ApiError_def
  User_findById_def validateUserSession_def AUTH_CONFIG_SESSION_VALIDATION_def
  AUTH_CONFIG_UPDATE_LAST_USED_def

lemmas others_eval =
  post_logout_all_others_def logoutAllOtherDevices_def invalidateAllOtherSessions_def ErrorHandler_def

lemma verifyJwtToken_Inr:
  assumes "verifyJwtToken e now d req = Inr (d1, u, ti)"
  shows "User_findById (users d) (uid u) = Some u
       \<and> snd (validateUserSession now (sessions d) (uid u) (ti_accessToken ti))
       \<and> d1 = d\<lparr>sessions := fst (validateUserSession now (sessions d) (uid u) (ti_accessToken ti))\<rparr>
       \<and> extractAccessToken req = Some (ti_accessToken ti)"
  using assms
  by (auto simp: verifyJwtToken_def User_findById_def
      split: option.splits sum.splits jsval.splits if_splits prod.splits dest: find_Some_mem)

lemma validateUserSession_True:
  assumes "snd (validateUserSession now ss u tok)"
  shows "\<exists>s. s \<in> set ss \<and> userId s = u \<and> accessToken s = tok \<and> s_isActive s
           \<and> fst (validateUserSession now ss u tok)
               = map (\<lambda>x. if sid x = sid s then s\<lparr>lastUsed := now\<rparr> else x) ss"
  using assms
  by (auto simp: validateUserSession_def AUTH_CONFIG_SESSION_VALIDATION_def
      AUTH_CONFIG_UPDATE_LAST_USED_def split: option.splits dest: find_Some_mem)

lemma filter_map_fixed:
  assumes "\<And>x. x \<in> set xs \<Longrightarrow> Q (g x) = Q' x" and "\<And>x. x \<in> set xs \<Longrightarrow> Q' x \<Longrightarrow> g x = x"
  shows "filter Q (map g xs) = filter Q' xs"
  using assms by (induction xs) auto

lemma at_most_one_with_key:
  "distinct (map f ys) \<Longrightarrow> length (filter (\<lambda>y. f y = t \<and> R y) ys) \<le> 1"
proof (induction ys)
  case Nil
  then show ?case by simp
next
  case (Cons y ys)
  show ?case
  proof (cases "f y = t")
    case True
    with Cons.prems have "\<forall>z\<in>set ys. f z \<noteq> t" by (auto simp: image_iff)
    then have "filter (\<lambda>y. f y = t \<and> R y) ys = []" by (auto simp: filter_empty_conv)
    then show ?thesis by simp
  next
    case False
    with Cons show ?thesis by simp
  qed
qed

lemma bump_keeps_attributes:
  assumes "distinct (map sid ss)" and "s \<in> set ss"
  shows "map (\<lambda>x. (userId x, s_isActive x, accessToken x))
           (map (\<lambda>x. if sid x = sid s then s\<lparr>lastUsed := now\<rparr> else x) ss)
         = map (\<lambda>x. (userId x, s_isActive x, accessToken x)) ss"
proof -
  have "\<And>x. x \<in> set ss \<Longrightarrow> sid x = sid s \<Longrightarrow> x = s"
    using assms by (meson distinct_map inj_onD)
  then show ?thesis by (auto simp: o_def)
qed

lemma filter_by_attributes:
  assumes "map A xs = map A ys"
  shows "length (filter (\<lambda>x. P (A x)) xs) = length (filter (\<lambda>x. P (A x)) ys)"
proof -
  have "length (filter (\<lambda>x. P (A x)) xs) = length (filter P (map A xs))"
    by (simp add: filter_map o_def)
  also have "\<dots> = length (filter (\<lambda>x. P (A x)) ys)"
    unfolding assms by (simp add: filter_map o_def)
  finally show ?thesis .
qed

text \<open>
  C2, as the claim states it, fails: a user whose first session expired and was
  cleaned up at the second login has one session and a counter of 2; the
  logout-others call from that session succeeds, deactivates nothing, and leaves the
  counter at 2, since the reset to 1 happens only when \<open>modifiedCount > 0\<close>.
\<close>

theorem logout_others_counter_not_reset:
  "map loginCount (users two_logins_db) = [2]
   \<and> map s_isActive (sessions two_logins_db) = [True]
   \<and> snd (post_logout_all_others example_env 950401000 two_logins_db
            \<lparr>cookie_accessToken = Some (accessToken (hd (sessions two_logins_db))),
             cookie_refreshToken = None, authorization = None\<rparr>)
       = OthersOk 200 ''Logged out from all other devices successfully''
           \<lparr>invalidatedSessions = 0, currentSessionPreserved = True\<rparr>
   \<and> map loginCount (users (fst (post_logout_all_others example_env 950401000 two_logins_db
            \<lparr>cookie_accessToken = Some (accessToken (hd (sessions two_logins_db))),
             cookie_refreshToken = None, authorization = None\<rparr>))) = [2]"
  by (simp add: two_logins_db_def login_eval gate_eval others_eval)

text \<open>
  C2, amended. After a successful logout-others call by an authenticated caller (the
  gate passed and the response is the 200), the report counts the user's other active
  sessions, the only active session left to the user is the one with the caller's
  access token (session ids being distinct, and no two sessions of the user sharing an
  access token), and the counter is exactly 1 if at least one other session was
  deactivated; otherwise no user record changes.
\<close>

theorem logout_others_keeps_callers_session:
  assumes gate: "verifyJwtToken e now d req = Inr (d1, u, ti)"
    and ok: "post_logout_all_others e now d req = (d2, OthersOk st msg res)"
    and sids: "distinct (map sid (sessions d))"
    and toks: "distinct (map accessToken (filter (\<lambda>s. userId s = uid u) (sessions d)))"
  shows "st = 200
       \<and> invalidatedSessions res
           = length (filter (\<lambda>s. userId s = uid u \<and> s_isActive s \<and> accessToken s \<noteq> ti_accessToken ti)
                       (sessions d))
       \<and> map accessToken (filter (\<lambda>s. userId s = uid u \<and> s_isActive s) (sessions d2))
           = [ti_accessToken ti]
       \<and> (if 0 < invalidatedSessions res
          then map_option loginCount (User_findById (users d2) (uid u)) = Some 1
          else users d2 = users d)"
proof -
  let ?tok = "ti_accessToken ti"
  let ?A = "\<lambda>x. (userId x, s_isActive x, accessToken x)"
  from verifyJwtToken_Inr [OF gate] have
    fu: "User_findById (users d) (uid u) = Some u"
    and vs: "snd (validateUserSession now (sessions d) (uid u) ?tok)"
    and d1: "d1 = d\<lparr>sessions := fst (validateUserSession now (sessions d) (uid u) ?tok)\<rparr>"
    by auto
  from validateUserSession_True [OF vs] obtain s where
    s: "s \<in> set (sessions d)" "userId s = uid u" "accessToken s = ?tok" "s_isActive s"
    and ss1: "fst (validateUserSession now (sessions d) (uid u) ?tok)
               = map (\<lambda>x. if sid x = sid s then s\<lparr>lastUsed := now\<rparr> else x) (sessions d)"
    by blast
  let ?ss1 = "sessions d1"
  have A: "map ?A ?ss1 = map ?A (sessions d)"
    unfolding d1 using bump_keeps_attributes [OF sids s(1)] ss1 by simp
  let ?matches = "\<lambda>s. userId s = uid u \<and> s_isActive s \<and> accessToken s \<noteq> ?tok"
  let ?n = "length (filter ?matches ?ss1)"
  let ?g = "\<lambda>s. if ?matches s then s\<lparr>s_isActive := False, loggedOutAt := Some now\<rparr> else s"
  have n: "?n = length (filter (\<lambda>s. userId s = uid u \<and> s_isActive s \<and> accessToken s \<noteq> ?tok) (sessions d))"
    using filter_by_attributes [OF A, of "\<lambda>(a, b, c). a = uid u \<and> b \<and> c \<noteq> ?tok"] by simp
  have mem: "u \<in> set (users d)" using fu by (auto simp: User_findById_def dest: find_Some_mem)
  have users1: "users d1 = users d" unfolding d1 by simp
  have post: "post_logout_all_others e now d req
        = (case invalidateAllOtherSessions e now d1 (uid u) (Some ?tok) of
             (d1', Inl err) \<Rightarrow> (d1', OthersFailed (ErrorHandler (Plain err)))
           | (d1', Inr result) \<Rightarrow> (d1', OthersOk 200 ''Logged out from all other devices successfully'' result))"
    using gate by (simp add: post_logout_all_others_def logoutAllOtherDevices_def)
  have inv: "invalidateAllOtherSessions e now d1 (uid u) (Some ?tok)
      = (if 0 < ?n then
           (case user_save e (users d) (u\<lparr>loginCount := 1\<rparr>) of
              Inl err \<Rightarrow> (d1\<lparr>sessions := map ?g ?ss1\<rparr>, Inl err)
            | Inr us \<Rightarrow> (d1\<lparr>sessions := map ?g ?ss1, users := us\<rparr>,
                         Inr \<lparr>invalidatedSessions = ?n, currentSessionPreserved = True\<rparr>))
         else (d1\<lparr>sessions := map ?g ?ss1\<rparr>, Inr \<lparr>invalidatedSessions = ?n, currentSessionPreserved = True\<rparr>))"
    by (simp add: invalidateAllOtherSessions_def Let_def users1 fu)
  have res: "st = 200 \<and> invalidatedSessions res = ?n \<and> sessions d2 = map ?g ?ss1
      \<and> (if 0 < ?n then user_save e (users d) (u\<lparr>loginCount := 1\<rparr>) = Inr (users d2)
          else users d2 = users d)"
    using ok unfolding post inv by (auto simp: users1 split: if_splits sum.splits)
  have cnt: "if 0 < ?n then map_option loginCount (User_findById (users d2) (uid u)) = Some 1
             else users d2 = users d"
  proof (cases "0 < ?n")
    case True
    with res have "user_save e (users d) (u\<lparr>loginCount := 1\<rparr>) = Inr (users d2)" by simp
    then have "users d2 = map (\<lambda>x. if uid x = uid u then u\<lparr>loginCount := 1\<rparr> else x) (users d)"
      by (auto simp: user_save_def split: if_splits)
    then show ?thesis
      using True User_findById_replace [OF mem, of "u\<lparr>loginCount := 1\<rparr>"] by simp
  next
    case False
    with res show ?thesis by simp
  qed
  have act: "filter (\<lambda>s. userId s = uid u \<and> s_isActive s) (map ?g ?ss1)
      = filter (\<lambda>s. userId s = uid u \<and> s_isActive s \<and> accessToken s = ?tok) ?ss1"
    by (rule filter_map_fixed) auto
  have len1: "length (filter (\<lambda>s. userId s = uid u \<and> s_isActive s \<and> accessToken s = ?tok) ?ss1) = 1"
  proof -
    have "length (filter (\<lambda>s. userId s = uid u \<and> s_isActive s \<and> accessToken s = ?tok) ?ss1)
          = length (filter (\<lambda>s. userId s = uid u \<and> s_isActive s \<and> accessToken s = ?tok) (sessions d))"
      using filter_by_attributes [OF A, of "\<lambda>(a, b, c). a = uid u \<and> b \<and> c = ?tok"] by simp
    also have "\<dots> = length (filter (\<lambda>s. accessToken s = ?tok \<and> s_isActive s)
                          (filter (\<lambda>s. userId s = uid u) (sessions d)))"
      by (simp add: conj_commute conj_left_commute)
    finally have eq: "length (filter (\<lambda>s. userId s = uid u \<and> s_isActive s \<and> accessToken s = ?tok) ?ss1)
          = length (filter (\<lambda>s. accessToken s = ?tok \<and> s_isActive s)
                          (filter (\<lambda>s. userId s = uid u) (sessions d)))" .
    have le: "\<dots> \<le> 1" using toks by (rule at_most_one_with_key)
    have "s \<in> set (filter (\<lambda>s. accessToken s = ?tok \<and> s_isActive s)
                          (filter (\<lambda>s. userId s = uid u) (sessions d)))"
      using s by simp
    then have "0 < length (filter (\<lambda>s. accessToken s = ?tok \<and> s_isActive s)
                          (filter (\<lambda>s. userId s = uid u) (sessions d)))"
      by (rule length_pos_if_in_set)
    then have "1 \<le> length (filter (\<lambda>s. accessToken s = ?tok \<and> s_isActive s)
                          (filter (\<lambda>s. userId s = uid u) (sessions d)))"
      by (simp only: One_nat_def Suc_le_eq)
    with le have "length (filter (\<lambda>s. accessToken s = ?tok \<and> s_isActive s)
                          (filter (\<lambda>s. userId s = uid u) (sessions d))) = 1"
      by (rule order.antisym)
    with eq show ?thesis by (simp only:)
  qed
  have "map accessToken (filter (\<lambda>s. userId s = uid u \<and> s_isActive s \<and> accessToken s = ?tok) ?ss1)
        = replicate 1 ?tok"
    unfolding len1 [symmetric] by (intro map_replicate_const [THEN sym, THEN sym] replicate_eqI) auto
  then have "map accessToken (filter (\<lambda>s. userId s = uid u \<and> s_isActive s) (sessions d2)) = [?tok]"
    using res act by simp
  with res n cnt show ?thesis by simp
qed

theorem logout_others_keeps_callers_session_example:
  "\<not> isl (verifyJwtToken example_env 3000 three_logins_db
          \<lparr>cookie_accessToken = Some (accessToken (last (sessions three_logins_db))),
           cookie_refreshToken = None, authorization = None\<rparr>)
   \<and> distinct (map sid (sessions three_logins_db))
   \<and> distinct (map accessToken (filter (\<lambda>s. userId s = 1) (sessions three_logins_db)))
   \<and> snd (post_logout_all_others example_env 3000 three_logins_db
            \<lparr>cookie_accessToken = Some (accessToken (last (sessions three_logins_db))),
             cookie_refreshToken = None, authorization = None\<rparr>)
       = OthersOk 200 ''Logged out from all other devices successfully''
           \<lparr>invalidatedSessions = 2, currentSessionPreserved = True\<rparr>
   \<and> map accessToken (filter (\<lambda>s. userId s = 1 \<and> s_isActive s)
        (sessions (fst (post_logout_all_others example_env 3000 three_logins_db
            \<lparr>cookie_accessToken = Some (accessToken (last (sessions three_logins_db))),
             cookie_refreshToken = None, authorization = None\<rparr>))))
       = [accessToken (last (sessions three_logins_db))]
   \<and> map_option loginCount
        (User_findById (users (fst (post_logout_all_others example_env 3000 three_logins_db
            \<lparr>cookie_accessToken = Some (accessToken (last (sessions three_logins_db))),
             cookie_refreshToken = None, authorization = None\<rparr>))) 1) = Some 1"
proof -
  let ?req = "\<lparr>cookie_accessToken = Some (accessToken (last (sessions three_logins_db))),
               cookie_refreshToken = None, authorization = None\<rparr>"
  let ?V = "verifyJwtToken example_env 3000 three_logins_db ?req"
  let ?P = "post_logout_all_others example_env 3000 three_logins_db ?req"
  have isr: "\<not> isl ?V" by (simp add: three_logins_db_def login_eval gate_eval)
  have gate: "?V = Inr (fst (projr ?V), fst (snd (projr ?V)), snd (snd (projr ?V)))"
    using isr by simp
  have post: "snd ?P = OthersOk 200 ''Logged out from all other devices successfully''
                         \<lparr>invalidatedSessions = 2, currentSessionPreserved = True\<rparr>"
    by (simp add: three_logins_db_def login_eval gate_eval others_eval)
  have ok: "?P = (fst ?P, OthersOk 200 ''Logged out from all other devices successfully''
                         \<lparr>invalidatedSessions = 2, currentSessionPreserved = True\<rparr>)"
    using post by (metis prod.collapse)
  have sids: "distinct (map sid (sessions three_logins_db))"
    by (simp add: three_logins_db_def login_eval)
  have u: "uid (fst (snd (projr ?V))) = 1"
    by (simp add: three_logins_db_def login_eval gate_eval)
  have ti: "ti_accessToken (snd (snd (projr ?V))) = accessToken (last (sessions three_logins_db))"
    by (simp add: three_logins_db_def login_eval gate_eval)
  have toks1: "distinct (map accessToken (filter (\<lambda>s. userId s = 1) (sessions three_logins_db)))"
    by (simp add: three_logins_db_def login_eval)
  then have toks: "distinct (map accessToken (filter (\<lambda>s. userId s = uid (fst (snd (projr ?V))))
                                                (sessions three_logins_db)))"
    unfolding u .
  show ?thesis
    using isr sids toks1 post logout_others_keeps_callers_session [OF gate ok sids toks]
    unfolding u ti by simp
qed

section \<open>Logout with a refresh-token cookie\<close>

lemmas logout_eval =
  logout_def getUserIdFromToken_def truthyVal_def deleteSessionAndUpdateCount_def
  cleanupExpiredSessions_user_def decrementLoginCount_def no_faults_def

text \<open>
  C4. A user logs in once (counter 1, one session). A day later the browser still
  holds the refresh-token cookie but no access-token cookie; the logout deletes the
  session, reports one session deleted, and leaves the counter at 1: the user to
  decrement is taken from the access token alone.
\<close>

theorem logout_with_refresh_cookie_only:
  "map loginCount (users one_login_db) = [1]
   \<and> map s_isActive (sessions one_login_db) = [True]
   \<and> sessions (fst (logout no_faults example_env 90000000 one_login_db
        \<lparr>cookie_accessToken = None,
         cookie_refreshToken = Some (refreshToken (hd (sessions one_login_db))),
         authorization = None\<rparr>)) = []
   \<and> lo_status (snd (logout no_faults example_env 90000000 one_login_db
        \<lparr>cookie_accessToken = None,
         cookie_refreshToken = Some (refreshToken (hd (sessions one_login_db))),
         authorization = None\<rparr>)) = 200
   \<and> lo_sessionsDeleted (snd (logout no_faults example_env 90000000 one_login_db
        \<lparr>cookie_accessToken = None,
         cookie_refreshToken = Some (refreshToken (hd (sessions one_login_db))),
         authorization = None\<rparr>)) = Some 1
   \<and> map loginCount (users (fst (logout no_faults example_env 90000000 one_login_db
        \<lparr>cookie_accessToken = None,
         cookie_refreshToken = Some (refreshToken (hd (sessions one_login_db))),
         authorization = None\<rparr>))) = [1]"
  by (simp add: one_login_db_def login_eval gate_eval logout_eval)

text \<open>
  When the access-token cookie verifies and names a stored user, and the refresh
  token matches an active session, the session goes and that user's counter is
  decremented, not below zero.
\<close>

lemma deleteOne_found:
  "x \<in> set xs \<Longrightarrow> P x \<Longrightarrow> snd (deleteOne P xs) = 1"
  by (induction xs) auto

lemma logout_with_valid_access_token:
  assumes "getUserIdFromToken e now (cookie_accessToken req) = Some (JId i)"
    and "cookie_refreshToken req = Some rt" and "truthyToken (Some rt)"
    and "s \<in> set (sessions d)" and "refreshToken s = rt" and "s_isActive s"
    and "User_findById (users d) i = Some usr" and "docValid e usr"
  shows "lo_sessionsDeleted (snd (logout no_faults e now d req)) = Some 1
       \<and> map_option loginCount (User_findById (users (fst (logout no_faults e now d req))) i)
           = Some (if 0 < loginCount usr then loginCount usr - 1 else 0)"
proof -
  have mem: "usr \<in> set (users d)" and i: "uid usr = i"
    using assms(7) by (auto simp: User_findById_def dest: find_Some_mem)
  let ?P = "\<lambda>s. refreshToken s = rt \<and> s_isActive s = True"
  let ?u = "if 0 < loginCount usr then usr\<lparr>loginCount := loginCount usr - 1\<rparr> else usr"
  have one: "snd (deleteOne ?P (sessions d)) = 1"
    using assms(4,5,6) by (intro deleteOne_found [of s]) auto
  have v: "docValid e ?u" using assms(8) by (auto simp: docValid_def)
  have f: "User_findById (map (\<lambda>x. if uid x = uid usr then ?u else x) (users d)) (uid usr) = Some ?u"
    using User_findById_replace [OF mem, of ?u] by simp
  have nn: "0 \<le> loginCount usr" using assms(8) by (simp add: docValid_def)
  show ?thesis
    using assms(1,2,3,7) one v f nn i
    by (auto simp: logout_def Let_def deleteSessionAndUpdateCount_def truthyVal_def no_faults_def
        decrementLoginCount_def user_save_def cleanupExpiredSessions_user_def)
qed

section \<open>Cap enforcement from any state\<close>

lemma filter_not_in_suffix:
  "set as \<inter> set bs = {} \<Longrightarrow> filter (\<lambda>x. x \<notin> set bs) (as @ bs) = as"
  by (auto simp: filter_empty_conv intro!: filter_True)

lemma filter_not_in_drop:
  assumes "distinct xs"
  shows "filter (\<lambda>x. x \<notin> set (drop m xs)) xs = take m xs"
proof -
  have "set (take m xs) \<inter> set (drop m xs) = {}"
    using assms by (metis append_take_drop_id distinct_append)
  then have "filter (\<lambda>x. x \<notin> set (drop m xs)) (take m xs @ drop m xs) = take m xs"
    by (rule filter_not_in_suffix)
  then show ?thesis by (simp only: append_take_drop_id)
qed

lemma getActiveSessions_descending:
  "sorted (map lastUsed (rev (getActiveSessions t ss u)))"
  by (simp add: getActiveSessions_def)

text \<open>Every session that is deactivated was used no later than every session that is kept.\<close>

lemma deactivated_are_least_recently_used:
  assumes "x \<in> set (drop m (getActiveSessions t ss u))"
    and "y \<in> set (take m (getActiveSessions t ss u))"
  shows "lastUsed x \<le> lastUsed y"
proof -
  let ?A = "getActiveSessions t ss u"
  have "sorted (map lastUsed (rev (drop m ?A) @ rev (take m ?A)))"
    using getActiveSessions_descending [of t ss u]
    by (metis append_take_drop_id rev_append)
  then show ?thesis using assms by (auto simp: sorted_append)
qed

text \<open>
  At or above the cap \<open>n \<ge> 1\<close>, the user's active sessions after
  \<open>deactivateOldSessions\<close> are the \<open>n - 1\<close> most recently used ones.
\<close>

lemma getActiveSessions_after_deactivate:
  assumes sids: "distinct (map sid ss)" and n: "1 \<le> n"
    and full: "n \<le> length (getActiveSessions t ss u)"
  shows "getActiveSessions t (deactivateOldSessions t ss u n) u = take (n - 1) (getActiveSessions t ss u)"
proof -
  define act where "act = (\<lambda>s::session. userId s = u \<and> s_isActive s \<and> t < expiresAt s)"
  define A where "A = getActiveSessions t ss u"
  define D where "D = set (map sid (drop (n - 1) A))"
  define g where "g = (\<lambda>s::session. if sid s \<in> D then s\<lparr>s_isActive := False\<rparr> else s)"
  have A: "A = rev (sort_key lastUsed (filter act ss))"
    by (simp add: A_def act_def getActiveSessions_def)
  have sl: "js_slice (int n - 1) A = drop (n - 1) A"
    using n by (simp add: js_slice_def nat_diff_distrib')
  have d: "deactivateOldSessions t ss u n = map g ss"
    using full sl by (simp add: deactivateOldSessions_def Let_def A_def [symmetric] g_def D_def)
  have f: "filter act (map g ss) = filter (\<lambda>s. act s \<and> sid s \<notin> D) ss"
    by (rule filter_map_fixed) (auto simp: act_def g_def)
  have setA: "set A \<subseteq> set ss" by (auto simp: A)
  have dA: "distinct A"
    using sids by (simp add: A distinct_map)
  have inj: "inj_on sid (set ss)" using sids by (simp add: distinct_map)
  have mem: "(sid s \<in> D) = (s \<in> set (drop (n - 1) A))" if s: "s \<in> set A" for s
  proof
    assume "sid s \<in> D"
    then obtain z where z: "z \<in> set (drop (n - 1) A)" "sid z = sid s" by (auto simp: D_def)
    then have "z \<in> set ss" using setA by (meson in_set_dropD subsetD)
    with inj z s setA have "z = s" by (meson inj_onD subsetD)
    with z show "s \<in> set (drop (n - 1) A)" by simp
  next
    assume "s \<in> set (drop (n - 1) A)"
    then show "sid s \<in> D" by (simp add: D_def)
  qed
  have "getActiveSessions t (map g ss) u = rev (sort_key lastUsed (filter act (map g ss)))"
    by (simp add: getActiveSessions_def act_def)
  also have "\<dots> = rev (sort_key lastUsed (filter (\<lambda>s. sid s \<notin> D) (filter act ss)))"
    by (simp only: f filter_filter)
  also have "\<dots> = filter (\<lambda>s. sid s \<notin> D) A"
    by (simp only: A rev_filter [symmetric] filter_sort)
  also have "\<dots> = filter (\<lambda>s. s \<notin> set (drop (n - 1) A)) A"
    using mem by (intro filter_cong) auto
  also have "\<dots> = take (n - 1) A"
    using dA by (rule filter_not_in_drop)
  finally show ?thesis unfolding d A_def .
qed

text \<open>With a cap of 0 a login still leaves its own session active.\<close>

lemma cap_zero_login_still_creates_a_session:
  "map s_isActive
     (sessions (fst (run_logins (SESSION_CONFIG\<lparr>MAX_SESSIONS_PER_USER := 0\<rparr>) example_env empty_db
                       google ''g1'' ''a@x.com'' ''Alice'' [] None None [0]))) = [True]"
  by (simp add: login_eval)

end
